theory Spec2Isabelle
  imports Complex_Main
begin

section \<open>The Momentum Engine: data model (src/App.tsx, "Types")\<close>

text \<open>
  The engine is the state of the React component \<open>App\<close> of src/App.tsx together with the
  one slot of \<open>localStorage\<close> that the component reads back (\<open>momentum_last_reset\<close>).
  Every handler of the component is modelled as a function from the state before to the
  state after; the functional updaters \<open>prev => ...\<close> are applied in the order the source
  issues them.

  The interfaces of the source share field names (\<open>id\<close>, \<open>text\<close>, \<open>completed\<close>), so each
  record prefixes its fields with the initial of its interface.
\<close>

text \<open>
  A JavaScript \<open>Date\<close> is its time value, the number of milliseconds since the epoch.
  The program uses \<open>toDateString()\<close> only to compare calendar days and to key objects by
  them, so a calendar-day string is represented by the number of its local calendar day
  (the days of local time since the epoch).

  Local time follows ECMAScript: the time zone is the platform's and enters as a
  parameter. \<open>offsetAt z t\<close> is \<open>LocalTZA(t, true)\<close>, the offset in milliseconds in force
  at the instant \<open>t\<close>; \<open>offsetOfLocal z t\<close> is \<open>LocalTZA(t, false)\<close>, the offset by which
  the local time value \<open>t\<close> is read back (the offset before the change for a local time
  that a change repeats or skips).
\<close>

type_synonym day = int

record zone =
  offsetAt :: "int \<Rightarrow> int"
  offsetOfLocal :: "int \<Rightarrow> int"

definition LocalTime :: "zone \<Rightarrow> int \<Rightarrow> int" where
  "LocalTime z t = t + offsetAt z t"

definition UTC :: "zone \<Rightarrow> int \<Rightarrow> int" where
  "UTC z t = t - offsetOfLocal z t"

definition toDateString :: "zone \<Rightarrow> int \<Rightarrow> day" where
  "toDateString z d = LocalTime z d div 86400000"

text \<open>
  \<open>d.setDate(d.getDate() - 1)\<close>: the local time of \<open>d\<close> with the day of the month one
  less, which \<open>MakeDay\<close> carries into the month before, so the local time value minus one
  day, read back as an instant.
\<close>

definition setDateBack :: "zone \<Rightarrow> int \<Rightarrow> int" where
  "setDateBack z d = UTC z (LocalTime z d - 86400000)"

text \<open>A zone whose offset never changes, and New York around the change from daylight
  time (four hours behind) to standard time (five hours behind) on 2 November 2025 at
  06:00 UTC; local times before 02:00 of that day are read back in daylight time.\<close>

definition fixedZone :: "int \<Rightarrow> zone" where
  "fixedZone tz = \<lparr>offsetAt = (\<lambda>t. tz), offsetOfLocal = (\<lambda>t. tz)\<rparr>"

definition newYork :: zone where
  "newYork =
     \<lparr>offsetAt = (\<lambda>t. if t < 1762063200000 then - 14400000 else - 18000000),
      offsetOfLocal = (\<lambda>t. if t < 1762048800000 then - 14400000 else - 18000000)\<rparr>"

text \<open>
  A JavaScript string is a list of UTF-16 code units. The text of an entry passes
  through \<open>trim\<close>, which looks at code units above one byte, so it is kept as such a
  list. The other strings are only stored and compared and are HOL strings; \<open>utf16\<close>
  gives the code units of one (a character of a HOL string is the code unit of the same
  number).
\<close>

type_synonym codeUnits = "nat list"

definition utf16 :: "string \<Rightarrow> codeUnits" where
  "utf16 s = map of_char s"

record ActivityEntry =
  e_id :: string
  e_text :: codeUnits
  e_timestamp :: int

record Habit =
  h_id :: string
  h_label :: string
  h_completed :: bool

record MiniGoal =
  g_id :: string
  g_text :: string
  g_deadline :: string
  g_completed :: bool

record IfThenPlan =
  p_id :: string
  p_trigger :: string
  p_action :: string

record WOOPPlan =
  wish :: string
  outcome :: string
  obstacle :: string
  plan :: string

record AnalyticsData =
  timerSessions :: int
  habitsCompleted :: int
  goalsCreated :: int
  ifThenCreated :: int

text \<open>
  The state cells of \<open>App\<close> that the claims are about, and \<open>lastReset\<close>, the slot
  \<open>STORAGE_KEYS.LAST_RESET\<close> of \<open>localStorage\<close> (\<open>None\<close> is \<open>getItem\<close> returning
  \<open>null\<close>). \<open>Record<string, T>\<close> objects keyed by day strings are maps.
\<close>

record engine =
  entries :: "ActivityEntry list"
  habits :: "Habit list"
  vision :: string
  miniGoals :: "MiniGoal list"
  ifThenPlans :: "IfThenPlan list"
  woop :: WOOPPlan
  points :: int
  activeTheme :: string
  habitHistory :: "day \<rightharpoonup> string list"
  futureCostNotes :: "day \<rightharpoonup> string"
  analytics :: AnalyticsData
  lastReset :: "day option"


section \<open>Heatmap cell (App, the \<open>last30Days.map\<close> callback)\<close>

text \<open>
  \<open>count\<close> is \<open>activityMap[dateStr] || 0\<close>, a number of entries. The callback chooses
  the pair \<open>(bgColor, glowClass)\<close>. The legend above the grid labels the four
  backgrounds \<open>0\<close>, \<open>1-2\<close>, \<open>3-5\<close> and \<open>6+\<close>.
\<close>

definition heatCell :: "nat \<Rightarrow> string \<times> string" where
  "heatCell count =
     (if count > 0 \<and> count \<le> 2 then (''bg-engine-accent/30'', '''')
      else if count > 2 \<and> count \<le> 5 then (''bg-engine-accent/60'', '''')
      else if count > 5 then (''bg-engine-accent'', ''shadow-[0_0_8px_rgba(0,255,65,0.4)]'')
      else (''bg-engine-border'', ''''))"

definition bgColor :: "nat \<Rightarrow> string" where
  "bgColor count = fst (heatCell count)"


section \<open>Initial state (App, the \<open>useState\<close> initialisers on an empty store)\<close>

text \<open>The active theme starts as \<open>THEMES[0].color\<close>, the colour of 'Matrix Green'.\<close>

definition seededHabits :: "Habit list" where
  "seededHabits =
     [\<lparr>h_id = ''1'', h_label = ''Wake up 30m earlier'', h_completed = False\<rparr>,
      \<lparr>h_id = ''2'', h_label = ''Read 10 pages'', h_completed = False\<rparr>,
      \<lparr>h_id = ''3'', h_label = ''Meditate 5 minutes'', h_completed = False\<rparr>,
      \<lparr>h_id = ''4'', h_label = ''Gratitude journal'', h_completed = False\<rparr>]"

definition noAnalytics :: AnalyticsData where
  "noAnalytics = \<lparr>timerSessions = 0, habitsCompleted = 0, goalsCreated = 0, ifThenCreated = 0\<rparr>"

definition initialEngine :: engine where
  "initialEngine =
     \<lparr>entries = [],
      habits = seededHabits,
      vision = [],
      miniGoals = [],
      ifThenPlans = [],
      woop = \<lparr>wish = [], outcome = [], obstacle = [], plan = []\<rparr>,
      points = 0,
      activeTheme = ''#00FF41'',
      habitHistory = Map.empty,
      futureCostNotes = Map.empty,
      analytics = noAnalytics,
      lastReset = None\<rparr>"


section \<open>Daily rollover (App, "Midnight Reset Logic")\<close>

definition getTodayString :: "zone \<Rightarrow> int \<Rightarrow> day" where
  "getTodayString z now = toDateString z now"

text \<open>
  \<open>checkReset\<close> runs at start and every minute. \<open>today\<close> is the value of
  \<open>getTodayString()\<close> at the call.
\<close>

definition checkReset :: "day \<Rightarrow> engine \<Rightarrow> engine" where
  "checkReset today st =
     (if lastReset st \<noteq> Some today
      then st\<lparr>habits := map (\<lambda>h. h\<lparr>h_completed := False\<rparr>) (habits st),
              lastReset := Some today\<rparr>
      else st)"


section \<open>Habits (App, \<open>toggleHabit\<close>)\<close>

text \<open>\<open>prevH[today] || []\<close>: an array is truthy, so only a missing key gives \<open>[]\<close>.\<close>

definition dayHistory :: "day \<Rightarrow> (day \<rightharpoonup> string list) \<Rightarrow> string list" where
  "dayHistory today prevH = (case prevH today of None \<Rightarrow> [] | Some xs \<Rightarrow> xs)"

text \<open>The updater passed to \<open>setHabitHistory\<close>.\<close>

definition logHabit :: "day \<Rightarrow> string \<Rightarrow> (day \<rightharpoonup> string list) \<Rightarrow> (day \<rightharpoonup> string list)" where
  "logHabit today label prevH =
     (if label \<notin> set (dayHistory today prevH)
      then prevH(today \<mapsto> dayHistory today prevH @ [label])
      else prevH)"

definition flipHabit :: "string \<Rightarrow> Habit \<Rightarrow> Habit" where
  "flipHabit i h = (if h_id h = i then h\<lparr>h_completed := \<not> h_completed h\<rparr> else h)"

text \<open>
  \<open>newHabits.find(h => h.id === id)\<close> is the first habit with that id, after the flip;
  \<open>habit?.completed\<close> is falsy when there is none.
\<close>

definition toggleHabit :: "day \<Rightarrow> string \<Rightarrow> engine \<Rightarrow> engine" where
  "toggleHabit today i st =
     (let newHabits = map (flipHabit i) (habits st);
          habit = find (\<lambda>h. h_id h = i) newHabits
      in case habit of
           None \<Rightarrow> st\<lparr>habits := newHabits\<rparr>
         | Some h \<Rightarrow>
             if h_completed h
             then st\<lparr>habits := newHabits,
                     analytics := (analytics st)\<lparr>habitsCompleted :=
                                    habitsCompleted (analytics st) + 1\<rparr>,
                     habitHistory := logHabit today (h_label h) (habitHistory st)\<rparr>
             else st\<lparr>habits := newHabits\<rparr>)"


section \<open>Activity log (App, \<open>addEntry\<close> and \<open>deleteEntry\<close>)\<close>

text \<open>
  \<open>String.prototype.trim\<close> strips white space and line terminators from both ends.
  ECMAScript's white space is TAB, VT, FF, the byte order mark U+FEFF and the space
  separators of Unicode (the space, the no-break space U+00A0, U+1680, U+2000 to
  U+200A, U+202F, U+205F, U+3000); its line terminators are LF, CR, U+2028 and U+2029.
\<close>

definition isSpace :: "nat \<Rightarrow> bool" where
  "isSpace c =
     (c \<in> set [0x09, 0x0A, 0x0B, 0x0C, 0x0D, 0x20, 0xA0, 0x1680, 0x2028, 0x2029,
                0x202F, 0x205F, 0x3000, 0xFEFF]
      \<or> (0x2000 \<le> c \<and> c \<le> 0x200A))"

definition trim :: "codeUnits \<Rightarrow> codeUnits" where
  "trim s = rev (dropWhile isSpace (rev (dropWhile isSpace s)))"

text \<open>\<open>Number.prototype.toString\<close> on an integer: its decimal digits, with a sign.\<close>

definition digit :: "nat \<Rightarrow> char" where
  "digit d = ''0123456789'' ! d"

fun digits :: "nat \<Rightarrow> string" where
  "digits n = (if n < 10 then [digit n] else digits (n div 10) @ [digit (n mod 10)])"

declare digits.simps [simp del]

definition Number_toString :: "int \<Rightarrow> string" where
  "Number_toString n = (if n < 0 then CHR ''-'' # digits (nat (- n)) else digits (nat n))"

text \<open>
  \<open>addEntry\<close> reads the clock twice: \<open>now1\<close> is the \<open>Date.now()\<close> of the id, \<open>now2\<close> the one
  of the timestamp. \<open>newEntry\<close> is the text of the input field. An empty string is falsy,
  so \<open>!newEntry.trim()\<close> holds exactly when the trimmed text is empty.
\<close>

definition addEntry :: "int \<Rightarrow> int \<Rightarrow> codeUnits \<Rightarrow> engine \<Rightarrow> engine" where
  "addEntry now1 now2 newEntry st =
     (if trim newEntry = [] then st
      else let entry = \<lparr>e_id = Number_toString now1, e_text = trim newEntry, e_timestamp = now2\<rparr>
           in st\<lparr>entries := entry # entries st\<rparr>)"

definition deleteEntry :: "string \<Rightarrow> engine \<Rightarrow> engine" where
  "deleteEntry i st = st\<lparr>entries := filter (\<lambda>e. e_id e \<noteq> i) (entries st)\<rparr>"

definition listAll :: "engine \<Rightarrow> ActivityEntry list" where
  "listAll st = entries st"

text \<open>
  \<open>handleTimerComplete\<close> logs a burst; the timer's own cells (\<open>isActive\<close>, \<open>timeLeft\<close>) are
  not part of the engine.
\<close>

definition burstEntry :: "int \<Rightarrow> int \<Rightarrow> ActivityEntry" where
  "burstEntry now1 now2 =
     \<lparr>e_id = Number_toString now1, e_text = utf16 ''Completed 5-Minute Action Burst'',
      e_timestamp = now2\<rparr>"

definition handleTimerComplete :: "int \<Rightarrow> int \<Rightarrow> engine \<Rightarrow> engine" where
  "handleTimerComplete now1 now2 st =
     st\<lparr>points := points st + 1,
        analytics := (analytics st)\<lparr>timerSessions := timerSessions (analytics st) + 1\<rparr>,
        entries := burstEntry now1 now2 # entries st\<rparr>"

text \<open>
  Sequences of operations on the log, to state properties of every sequence:
  \<open>Append now1 now2 text\<close> is a call of \<open>addEntry\<close> with these clock readings and this
  input text, \<open>Remove i\<close> a call of \<open>deleteEntry\<close>.
\<close>

datatype logOp = Append int int codeUnits | Remove string

fun perform :: "logOp \<Rightarrow> engine \<Rightarrow> engine" where
  "perform (Append now1 now2 newEntry) st = addEntry now1 now2 newEntry st"
| "perform (Remove i) st = deleteEntry i st"

fun run :: "logOp list \<Rightarrow> engine \<Rightarrow> engine" where
  "run [] st = st"
| "run (x # ops) st = run ops (perform x st)"

text \<open>The appends of a sequence that pass the check of the text: how many, and the clock
  readings of their ids and of their timestamps, in the order of the calls.\<close>

fun appends :: "logOp list \<Rightarrow> nat" where
  "appends [] = 0"
| "appends (Append now1 now2 newEntry # ops) =
     (if trim newEntry = [] then 0 else 1) + appends ops"
| "appends (Remove i # ops) = appends ops"

fun idClock :: "logOp list \<Rightarrow> int list" where
  "idClock [] = []"
| "idClock (Append now1 now2 newEntry # ops) =
     (if trim newEntry = [] then idClock ops else now1 # idClock ops)"
| "idClock (Remove i # ops) = idClock ops"

fun tsClock :: "logOp list \<Rightarrow> int list" where
  "tsClock [] = []"
| "tsClock (Append now1 now2 newEntry # ops) =
     (if trim newEntry = [] then tsClock ops else now2 # tsClock ops)"
| "tsClock (Remove i # ops) = tsClock ops"

text \<open>The removals of a sequence whose id is in the log when they run.\<close>

fun removals :: "logOp list \<Rightarrow> engine \<Rightarrow> nat" where
  "removals [] st = 0"
| "removals (Append now1 now2 newEntry # ops) st =
     removals ops (addEntry now1 now2 newEntry st)"
| "removals (Remove i # ops) st =
     (if i \<in> set (map e_id (entries st)) then 1 else 0) + removals ops (deleteEntry i st)"


section \<open>Derived metrics (\<open>calculateStreak\<close>, \<open>activityMap\<close>, \<open>avgActionsPerDay\<close>)\<close>

text \<open>\<open>Array.from(new Set(xs))\<close>: the distinct elements, each at its first occurrence.\<close>

definition Array_from_Set :: "'a list \<Rightarrow> 'a list" where
  "Array_from_Set xs = rev (remdups (rev xs))"

text \<open>
  The \<open>while\<close> loop of \<open>calculateStreak\<close>, with \<open>currentDate.setDate(currentDate.getDate() - 1)\<close>
  as \<open>setDateBack\<close>. The zone is a parameter and nothing makes the loop end for every
  zone, so the loop is a partial function: \<open>None\<close> is the loop that does not return.
\<close>

partial_function (option) streakLoop :: "zone \<Rightarrow> day list \<Rightarrow> int \<Rightarrow> nat \<Rightarrow> nat option" where
  "streakLoop z dates currentDate streak =
     (if toDateString z currentDate \<in> set dates
      then streakLoop z dates (setDateBack z currentDate) (streak + 1)
      else Some streak)"

text \<open>\<open>yesterday\<close> is \<open>new Date(Date.now() - 86400000).toDateString()\<close>: the day of the
  instant 24 hours ago.\<close>

definition calculateStreak :: "zone \<Rightarrow> int \<Rightarrow> ActivityEntry list \<Rightarrow> nat option" where
  "calculateStreak z now es =
     (if length es = 0 then Some 0
      else let dates = Array_from_Set (map (\<lambda>e. toDateString z (e_timestamp e)) es);
               today = getTodayString z now;
               yesterday = toDateString z (now - 86400000)
           in if today \<notin> set dates \<and> yesterday \<notin> set dates then Some 0
              else streakLoop z dates
                     (if today \<in> set dates then now else now - 86400000) 0)"

text \<open>
  \<open>activityMap\<close> is an object keyed by day; its keys are kept in insertion order.
  \<open>bump\<close> is \<open>map[dateStr] = (map[dateStr] || 0) + 1\<close>.
\<close>

fun bump :: "day \<Rightarrow> (day \<times> nat) list \<Rightarrow> (day \<times> nat) list" where
  "bump d [] = [(d, 1)]"
| "bump d ((k, c) # m) = (if k = d then (k, c + 1) # m else (k, c) # bump d m)"

definition activityMap :: "zone \<Rightarrow> ActivityEntry list \<Rightarrow> (day \<times> nat) list" where
  "activityMap z es = foldl (\<lambda>m e. bump (toDateString z (e_timestamp e)) m) [] es"

text \<open>
  The division of \<open>avgActionsPerDay\<close> is the floating-point one. Its operands are array
  lengths, whole numbers below \<open>2^32\<close>, with \<open>1 \<le> b \<le> a\<close> (every active day has an entry).
  There the double nearest to \<open>a / b\<close> is found as IEEE 754 does: with \<open>e = expo a b\<close> the
  binary exponent of the quotient (\<open>b * 2^e \<le> a < b * 2^(e + 1)\<close>), the quotient is scaled to
  53 significant bits, rounded to the nearest whole number, a tie to the even one, and
  scaled back. A double is represented by its value.
\<close>

function expo :: "nat \<Rightarrow> nat \<Rightarrow> nat" where
  "expo a b = (if b = 0 \<or> a < 2 * b then 0 else Suc (expo a (2 * b)))"
  by pat_completeness auto

termination expo
  by (relation "measure (\<lambda>(a, b). a - b)") auto

declare expo.simps [simp del]

definition roundHalfEven :: "nat \<Rightarrow> nat \<Rightarrow> nat" where
  "roundHalfEven n b =
     (let q = n div b; r = n mod b
      in if 2 * r < b then q
         else if b < 2 * r then q + 1
         else if even q then q else q + 1)"

definition divideDouble :: "nat \<Rightarrow> nat \<Rightarrow> rat" where
  "divideDouble a b =
     (let k = 52 - expo a b
      in of_nat (roundHalfEven (a * 2 ^ k) b) / 2 ^ k)"

text \<open>
  \<open>x.toFixed(1)\<close> for a double \<open>0 \<le> x < 10^21\<close>: with \<open>n\<close> the whole number for which
  \<open>n / 10 - x\<close> is nearest to zero, the larger one if there are two, the decimal digits
  of \<open>n\<close> with a point before the last digit (and a zero before the point when \<open>n\<close> has
  one digit).
\<close>

definition toFixed1 :: "rat \<Rightarrow> string" where
  "toFixed1 x = (let n = nat \<lfloor>x * 10 + 1 / 2\<rfloor> in digits (n div 10) @ ''.'' @ [digit (n mod 10)])"

text \<open>\<open>avgActionsPerDay\<close> is the number \<open>0\<close> or the string that \<open>toFixed(1)\<close> makes of the
  quotient.\<close>

datatype numberOrText = Number rat | Text string

definition avgActionsPerDay :: "zone \<Rightarrow> ActivityEntry list \<Rightarrow> numberOrText" where
  "avgActionsPerDay z es =
     (let dates = map fst (activityMap z es)
      in if length dates = 0 then Number 0
         else Text (toFixed1 (divideDouble (length es) (length dates))))"


section \<open>Snapshots (App, \<open>exportData\<close> and \<open>importData\<close>)\<close>

text \<open>
  The object \<open>data\<close> of both functions, read at the types that the state cells declare.
  A key that is missing from the object (reading it gives \<open>undefined\<close>) or that holds
  \<open>null\<close> is \<open>None\<close>. \<open>JSON.stringify\<close> and \<open>JSON.parse\<close> are inverse on these data, so the
  object that \<open>exportData\<close> serialises is the object that \<open>importData\<close> parses from the
  exported file.
\<close>

record backup =
  d_entries :: "ActivityEntry list option"
  d_habits :: "Habit list option"
  d_vision :: "string option"
  d_miniGoals :: "MiniGoal list option"
  d_ifThenPlans :: "IfThenPlan list option"
  d_woop :: "WOOPPlan option"
  d_points :: "int option"
  d_activeTheme :: "string option"
  d_habitHistory :: "(day \<rightharpoonup> string list) option"
  d_futureCostNotes :: "(day \<rightharpoonup> string) option"
  d_analytics :: "AnalyticsData option"
  d_timestamp :: "string option"

definition noKeys :: backup where
  "noKeys =
     \<lparr>d_entries = None, d_habits = None, d_vision = None, d_miniGoals = None,
      d_ifThenPlans = None, d_woop = None, d_points = None, d_activeTheme = None,
      d_habitHistory = None, d_futureCostNotes = None, d_analytics = None,
      d_timestamp = None\<rparr>"

text \<open>\<open>isoTime\<close> is \<open>new Date().toISOString()\<close>.\<close>

definition exportData :: "string \<Rightarrow> engine \<Rightarrow> backup" where
  "exportData isoTime st =
     noKeys\<lparr>d_entries := Some (entries st),
            d_habits := Some (habits st),
            d_vision := Some (vision st),
            d_miniGoals := Some (miniGoals st),
            d_ifThenPlans := Some (ifThenPlans st),
            d_woop := Some (woop st),
            d_points := Some (points st),
            d_activeTheme := Some (activeTheme st),
            d_timestamp := Some isoTime\<rparr>"

text \<open>
  JavaScript's truthiness at each type: every array and every object is truthy, also
  the empty ones; a string is falsy when empty; a number is falsy when zero.
\<close>

definition truthyArray :: "'a list \<Rightarrow> bool" where
  "truthyArray xs = True"

definition truthyObject :: "'a \<Rightarrow> bool" where
  "truthyObject x = True"

definition truthyString :: "string \<Rightarrow> bool" where
  "truthyString s = (s \<noteq> [])"

definition truthyNumber :: "int \<Rightarrow> bool" where
  "truthyNumber n = (n \<noteq> 0)"

text \<open>One line \<open>if (data.k) setK(data.k)\<close> of \<open>importData\<close>.\<close>

definition ifTruthy :: "('a \<Rightarrow> bool) \<Rightarrow> 'a option \<Rightarrow> ('a \<Rightarrow> engine \<Rightarrow> engine) \<Rightarrow> engine \<Rightarrow> engine" where
  "ifTruthy truthy v setK st =
     (case v of None \<Rightarrow> st | Some x \<Rightarrow> if truthy x then setK x st else st)"

text \<open>The value of a state cell after such a line, from the value before.\<close>

definition cellAfter :: "('a \<Rightarrow> bool) \<Rightarrow> 'a option \<Rightarrow> 'a \<Rightarrow> 'a" where
  "cellAfter truthy v old = (case v of None \<Rightarrow> old | Some x \<Rightarrow> if truthy x then x else old)"

text \<open>The body of the \<open>try\<close> block after \<open>JSON.parse\<close>, on an object.\<close>

definition applyData :: "backup \<Rightarrow> engine \<Rightarrow> engine" where
  "applyData data st0 =
     (let st1 = ifTruthy truthyArray (d_entries data) (\<lambda>x st. st\<lparr>entries := x\<rparr>) st0;
          st2 = ifTruthy truthyArray (d_habits data) (\<lambda>x st. st\<lparr>habits := x\<rparr>) st1;
          st3 = ifTruthy truthyString (d_vision data) (\<lambda>x st. st\<lparr>vision := x\<rparr>) st2;
          st4 = ifTruthy truthyArray (d_miniGoals data) (\<lambda>x st. st\<lparr>miniGoals := x\<rparr>) st3;
          st5 = ifTruthy truthyArray (d_ifThenPlans data) (\<lambda>x st. st\<lparr>ifThenPlans := x\<rparr>) st4;
          st6 = ifTruthy truthyObject (d_woop data) (\<lambda>x st. st\<lparr>woop := x\<rparr>) st5;
          st7 = ifTruthy truthyNumber (d_points data) (\<lambda>x st. st\<lparr>points := x\<rparr>) st6;
          st8 = ifTruthy truthyString (d_activeTheme data) (\<lambda>x st. st\<lparr>activeTheme := x\<rparr>) st7;
          st9 = ifTruthy truthyObject (d_habitHistory data) (\<lambda>x st. st\<lparr>habitHistory := x\<rparr>) st8;
          st10 = ifTruthy truthyObject (d_futureCostNotes data)
                   (\<lambda>x st. st\<lparr>futureCostNotes := x\<rparr>) st9
      in ifTruthy truthyObject (d_analytics data) (\<lambda>x st. st\<lparr>analytics := x\<rparr>) st10)"

text \<open>
  What \<open>JSON.parse\<close> returns: \<open>null\<close>, a number, string or boolean (\<open>JPrimitive\<close>), or an
  object. Reading a property of \<open>null\<close> throws a TypeError, which the \<open>catch\<close> takes like
  the parser's SyntaxError; reading one of the eleven keys from a primitive gives
  \<open>undefined\<close>. A top-level array is outside the model. The parser itself is the
  platform's: \<open>JSON_parse\<close> is a parameter, \<open>None\<close> where \<open>JSON.parse\<close> throws.

  The result is the text of the \<open>alert\<close> and the state after.
\<close>

datatype parsed = JNull | JPrimitive | JObject backup

definition importData :: "(string \<Rightarrow> parsed option) \<Rightarrow> string \<Rightarrow> engine \<Rightarrow> string \<times> engine" where
  "importData JSON_parse document st =
     (case JSON_parse document of
        None \<Rightarrow> (''Error: Invalid backup file.'', st)
      | Some JNull \<Rightarrow> (''Error: Invalid backup file.'', st)
      | Some JPrimitive \<Rightarrow> (''System data restored successfully.'', st)
      | Some (JObject data) \<Rightarrow> (''System data restored successfully.'', applyData data st))"


section \<open>Heatmap bucketing\<close>

text \<open>
  C7. For every per-day count the heatmap cell has the background of the legend's tier:
  count 0 the \<open>0\<close> tier (none), counts 1 and 2 the \<open>1-2\<close> tier (low), counts 3 to 5 the
  \<open>3-5\<close> tier (medium), counts of 6 and more the \<open>6+\<close> tier (high). The boundary counts
  2 and 5 fall into the lower tier and 6 is high.
\<close>

theorem heatmap_bucketing:
  "bgColor count =
     (if count = 0 then ''bg-engine-border''
      else if count \<le> 2 then ''bg-engine-accent/30''
      else if count \<le> 5 then ''bg-engine-accent/60''
      else ''bg-engine-accent'')
   \<and> bgColor 0 = ''bg-engine-border''
   \<and> bgColor 2 = ''bg-engine-accent/30''
   \<and> bgColor 5 = ''bg-engine-accent/60''
   \<and> bgColor 6 = ''bg-engine-accent''
   \<and> bgColor 7 = ''bg-engine-accent''"
  by (simp add: bgColor_def heatCell_def)

section \<open>Daily rollover\<close>

text \<open>
  C4. The rollover is idempotent: once \<open>checkReset\<close> has run on a day, a second run on the
  same day changes nothing, neither a habit's \<open>completed\<close> flag nor the last-reset-day
  marker. After any run the marker is that day, and a run on a state whose marker is
  already today returns the state as it is (so habits toggled since the first run keep
  their flags).
\<close>

theorem rollover_idempotent:
  "checkReset today (checkReset today st) = checkReset today st
   \<and> map h_completed (habits (checkReset today (checkReset today st))) = map h_completed (habits (checkReset today st))
   \<and> lastReset (checkReset today (checkReset today st)) = lastReset (checkReset today st)
   \<and> lastReset (checkReset today st) = Some today
   \<and> (lastReset st = Some today \<longrightarrow> checkReset today st = st)"
  by (simp add: checkReset_def)

theorem rollover_idempotent_witness:
  "checkReset 3 (toggleHabit 3 ''1'' (checkReset 3 initialEngine)) = toggleHabit 3 ''1'' (checkReset 3 initialEngine)
  \<and> map h_completed (habits (toggleHabit 3 ''1'' (checkReset 3 initialEngine))) = [True, False, False, False]"
  using rollover_idempotent [of 3 "toggleHabit 3 ''1'' (checkReset 3 initialEngine)"]
  by (simp add: checkReset_def toggleHabit_def initialEngine_def seededHabits_def flipHabit_def)


section \<open>Habit history\<close>

lemma find_flipHabit:
  "find (\<lambda>h. h_id h = i) (map (flipHabit i) hs) = map_option (flipHabit i) (find (\<lambda>h. h_id h = i) hs)"
  by (induction hs) (simp_all add: flipHabit_def)

lemma habitHistory_toggleHabit:
  assumes "find (\<lambda>h. h_id h = i) (habits st) = Some h"
  shows "habitHistory (toggleHabit today i st) =
           (if h_completed h then habitHistory st else logHabit today (h_label h) (habitHistory st))"
proof -
  have "h_id h = i" using assms by (auto simp: find_Some_iff)
  then show ?thesis using assms
  by (simp add: toggleHabit_def find_flipHabit flipHabit_def)
qed

lemma find_toggleHabit:
  "find (\<lambda>h. h_id h = i) (habits (toggleHabit today i st)) = map_option (flipHabit i) (find (\<lambda>h. h_id h = i) (habits st))"
  by (simp add: toggleHabit_def find_flipHabit Let_def split: option.splits)

lemma dayHistory_logHabit:
  "dayHistory today (logHabit today l m) = (if l \<in> set (dayHistory today m) then dayHistory today m else dayHistory today m @ [l])"
  by (simp add: logHabit_def dayHistory_def)


lemma count_list_distinct: "distinct xs \<Longrightarrow> x \<in> set xs \<Longrightarrow> count_list xs x = 1"
  by (induction xs) auto

lemma label_flipHabit: "h_label (flipHabit i h) = h_label h"
  by (simp add: flipHabit_def)

lemma completed_flipHabit: "h_id h = i \<Longrightarrow> h_completed (flipHabit i h) = (\<not> h_completed h)"
  by (simp add: flipHabit_def)

lemma id_flipHabit: "h_id (flipHabit i h) = h_id h"
  by (simp add: flipHabit_def)

text \<open>
  C5. For a pending habit (the first with its id) and a day, toggling it on, off and on
  again within that day appends its label to the day's history exactly once: the first
  toggle appends the label unless the day's list already has it, and the later toggles
  leave the day's list as it is. A day's list without duplicates stays without
  duplicates and holds the label once.
\<close>

theorem toggle_twice_logs_once:
  assumes found: "find (\<lambda>h. h_id h = i) (habits st) = Some h"
    and pending: "\<not> h_completed h"
  shows "let old = dayHistory today (habitHistory st);
             on1 = toggleHabit today i st;
             on2 = toggleHabit today i (toggleHabit today i on1);
             new = dayHistory today (habitHistory on2)
         in dayHistory today (habitHistory on1) = (if h_label h \<in> set old then old else old @ [h_label h])
          \<and> new = dayHistory today (habitHistory on1)
          \<and> count_list new (h_label h) = (if h_label h \<in> set old then count_list old (h_label h) else 1)
          \<and> (distinct old \<longrightarrow> distinct new \<and> count_list new (h_label h) = 1)"
proof -
  define l where "l = h_label h"
  define old where "old = dayHistory today (habitHistory st)"
  define on1 where "on1 = toggleHabit today i st"
  define off where "off = toggleHabit today i on1"
  define on2 where "on2 = toggleHabit today i off"
  have idh: "h_id h = i" using found by (auto simp: find_Some_iff)
  have f1: "find (\<lambda>h. h_id h = i) (habits on1) = Some (flipHabit i h)"
    by (simp add: on1_def find_toggleHabit found)
  have f2: "find (\<lambda>h. h_id h = i) (habits off) = Some (flipHabit i (flipHabit i h))"
    by (simp add: off_def find_toggleHabit f1)
  have h1: "habitHistory on1 = logHabit today l (habitHistory st)"
    by (simp add: on1_def habitHistory_toggleHabit [OF found] pending l_def)
  have h2: "habitHistory off = habitHistory on1"
    by (simp add: off_def habitHistory_toggleHabit [OF f1] completed_flipHabit idh pending)
  have h3: "habitHistory on2 = logHabit today l (habitHistory on1)"
    by (simp add: on2_def habitHistory_toggleHabit [OF f2] completed_flipHabit id_flipHabit
        label_flipHabit idh pending h2 l_def)
  have d1: "dayHistory today (habitHistory on1) = (if l \<in> set old then old else old @ [l])"
    by (simp add: h1 dayHistory_logHabit old_def)
  have d3: "dayHistory today (habitHistory on2) = dayHistory today (habitHistory on1)"
    by (simp add: h3 dayHistory_logHabit) (simp add: d1)
  have c: "count_list (dayHistory today (habitHistory on1)) l = (if l \<in> set old then count_list old l else 1)"
    by (simp add: d1 count_list_0_iff)
  have dist: "distinct old \<Longrightarrow> distinct (dayHistory today (habitHistory on1)) \<and> count_list (dayHistory today (habitHistory on1)) l = 1"
    by (simp add: d1 count_list_distinct)
  show ?thesis
    unfolding Let_def
    using d1 d3 c dist
    by (simp add: l_def old_def on1_def off_def on2_def)
qed

theorem toggle_twice_logs_once_witness:
  "dayHistory 7 (habitHistory (toggleHabit 7 ''2'' (toggleHabit 7 ''2'' (toggleHabit 7 ''2'' initialEngine)))) = [''Read 10 pages'']"
  using toggle_twice_logs_once [of "''2''" initialEngine "seededHabits ! 1" 7]
  by (simp add: initialEngine_def seededHabits_def dayHistory_def Let_def)

section \<open>Activity log\<close>

subsection \<open>Decimal ids are injective\<close>

lemma digit_cases: "d < 10 \<Longrightarrow> d = 0 \<or> d = 1 \<or> d = 2 \<or> d = 3 \<or> d = 4 \<or> d = 5 \<or> d = 6 \<or> d = 7 \<or> d = 8 \<or> d = (9::nat)"
  by arith

lemma digit_inj:
  assumes "a < 10" and "b < 10" and "digit a = digit b"
  shows "a = b"
  using digit_cases [OF assms(1)] digit_cases [OF assms(2)] assms(3)
  by (elim disjE) (simp_all add: digit_def)

lemma digit_not_minus:
  assumes "d < 10"
  shows "digit d \<noteq> CHR ''-''"
  using digit_cases [OF assms] by (elim disjE) (simp_all add: digit_def)

lemma digits_nonempty: "digits n \<noteq> []"
  by (subst digits.simps) simp

lemma minus_notin_digits: "CHR ''-'' \<notin> set (digits n)"
proof (induction n rule: digits.induct)
  case (1 n)
  show ?case
  proof (cases "n < 10")
    case True
    then show ?thesis using digit_not_minus [of n] by (subst digits.simps) auto
  next
    case False
    then show ?thesis using 1 digit_not_minus [of "n mod 10"]
      by (subst digits.simps) auto
  qed
qed

lemma digits_inj: "digits m = digits n \<Longrightarrow> m = n"
proof (induction m arbitrary: n rule: digits.induct)
  case (1 m)
  show ?case
  proof (cases "m < 10")
    case small_m: True
    show ?thesis
    proof (cases "n < 10")
      case True
      with small_m "1.prems" show ?thesis
        by (simp add: digits.simps [of m] digits.simps [of n] digit_inj)
    next
      case False
      with small_m "1.prems" digits_nonempty [of "n div 10"] show ?thesis
        by (simp add: digits.simps [of m] digits.simps [of n])
    qed
  next
    case big_m: False
    show ?thesis
    proof (cases "n < 10")
      case True
      with big_m "1.prems" digits_nonempty [of "m div 10"] show ?thesis
        by (simp add: digits.simps [of m] digits.simps [of n])
    next
      case False
      with big_m "1.prems" have eq: "digits (m div 10) = digits (n div 10)"
        and last: "digit (m mod 10) = digit (n mod 10)"
        by (simp_all add: digits.simps [of m] digits.simps [of n])
      from "1.IH" [OF big_m eq] have "m div 10 = n div 10" .
      moreover from last have "m mod 10 = n mod 10"
        by (intro digit_inj) simp_all
      ultimately show ?thesis
        by (metis div_mult_mod_eq)
    qed
  qed
qed

lemma Number_toString_inj: "Number_toString a = Number_toString b \<Longrightarrow> a = b"
proof -
  assume eq: "Number_toString a = Number_toString b"
  consider "a < 0" "b < 0" | "a < 0" "0 \<le> b" | "0 \<le> a" "b < 0" | "0 \<le> a" "0 \<le> b"
    by linarith
  then show "a = b"
  proof cases
    case 1
    with eq have "nat (- a) = nat (- b)" by (simp add: Number_toString_def digits_inj)
    with 1 show ?thesis by simp
  next
    case 2
    with eq have "digits (nat b) = CHR ''-'' # digits (nat (- a))"
      by (simp add: Number_toString_def)
    then have "CHR ''-'' \<in> set (digits (nat b))"
      by simp
    then show ?thesis by (simp add: minus_notin_digits)
  next
    case 3
    with eq have "digits (nat a) = CHR ''-'' # digits (nat (- b))"
      by (simp add: Number_toString_def)
    then have "CHR ''-'' \<in> set (digits (nat a))"
      by simp
    then show ?thesis by (simp add: minus_notin_digits)
  next
    case 4
    with eq have "nat a = nat b" by (simp add: Number_toString_def digits_inj)
    with 4 show ?thesis by simp
  qed
qed

subsection \<open>Sequences of appends and removals\<close>

lemma filter_id_length:
  "distinct (map e_id es) \<Longrightarrow>
     length (filter (\<lambda>e. e_id e \<noteq> i) es) + (if i \<in> set (map e_id es) then 1 else 0) = length es"
proof (induction es)
  case Nil
  show ?case by simp
next
  case (Cons e es)
  then have "i \<in> e_id ` set es \<Longrightarrow> e_id e \<noteq> i"
    by auto
  with Cons show ?case by auto
qed

lemma run_length:
  assumes "distinct (map e_id (entries st))"
    and "distinct (idClock ops)"
    and "\<forall>n \<in> set (idClock ops). Number_toString n \<notin> set (map e_id (entries st))"
  shows "length (entries (run ops st)) + removals ops st = length (entries st) + appends ops"
  using assms
proof (induction ops arbitrary: st)
  case Nil
  show ?case by simp
next
  case (Cons x ops)
  show ?case
  proof (cases x)
    case (Append now1 now2 newEntry)
    show ?thesis
    proof (cases "trim newEntry = []")
      case True
      with Cons Append show ?thesis by (simp add: addEntry_def)
    next
      case False
      let ?st = "addEntry now1 now2 newEntry st"
      from False have ents: "entries ?st =
          \<lparr>e_id = Number_toString now1, e_text = trim newEntry, e_timestamp = now2\<rparr> # entries st"
        by (simp add: addEntry_def)
      from False Cons.prems Append have fresh: "Number_toString now1 \<notin> set (map e_id (entries st))"
        and later: "now1 \<notin> set (idClock ops)" and dist: "distinct (idClock ops)"
        and rest: "\<forall>n \<in> set (idClock ops). Number_toString n \<notin> set (map e_id (entries st))"
        by simp_all
      have d: "distinct (map e_id (entries ?st))"
        using fresh Cons.prems(1) by (simp add: ents)
      have f: "\<forall>n \<in> set (idClock ops). Number_toString n \<notin> set (map e_id (entries ?st))"
        using rest later by (auto simp: ents dest: Number_toString_inj)
      from Cons.IH [OF d dist f] show ?thesis
        using False by (simp add: Append ents)
    qed
  next
    case (Remove i)
    let ?st = "deleteEntry i st"
    have ents: "entries ?st = filter (\<lambda>e. e_id e \<noteq> i) (entries st)"
      by (simp add: deleteEntry_def)
    have d: "distinct (map e_id (entries ?st))"
      using Cons.prems(1) by (simp add: ents distinct_map_filter)
    have dist: "distinct (idClock ops)"
      using Cons.prems(2) Remove by simp
    have f: "\<forall>n \<in> set (idClock ops). Number_toString n \<notin> set (map e_id (entries ?st))"
      using Cons.prems(3) Remove by (auto simp: ents)
    from Cons.IH [OF d dist f] filter_id_length [OF Cons.prems(1), of i]
    show ?thesis
      by (simp add: Remove ents split: if_splits)
  qed
qed

lemma run_newest_first:
  assumes "sorted_wrt (\<lambda>a b. e_timestamp b \<le> e_timestamp a) (entries st)"
    and "sorted (tsClock ops)"
    and "\<forall>e \<in> set (entries st). \<forall>n \<in> set (tsClock ops). e_timestamp e \<le> n"
  shows "sorted_wrt (\<lambda>a b. e_timestamp b \<le> e_timestamp a) (entries (run ops st))"
  using assms
proof (induction ops arbitrary: st)
  case Nil
  then show ?case by simp
next
  case (Cons x ops)
  show ?case
  proof (cases x)
    case (Append now1 now2 newEntry)
    show ?thesis
    proof (cases "trim newEntry = []")
      case True
      with Cons Append show ?thesis by (simp add: addEntry_def)
    next
      case False
      let ?st = "addEntry now1 now2 newEntry st"
      from False have ents: "entries ?st =
          \<lparr>e_id = Number_toString now1, e_text = trim newEntry, e_timestamp = now2\<rparr> # entries st"
        by (simp add: addEntry_def)
      from False Cons.prems Append have a: "sorted_wrt (\<lambda>a b. e_timestamp b \<le> e_timestamp a) (entries ?st)"
        by (simp add: ents)
      from False Cons.prems Append have b: "sorted (tsClock ops)"
        by simp
      from False Cons.prems Append have c: "\<forall>e \<in> set (entries ?st). \<forall>n \<in> set (tsClock ops). e_timestamp e \<le> n"
        by (auto simp: ents)
      from Cons.IH [OF a b c] show ?thesis
        by (simp add: Append)
    qed
  next
    case (Remove i)
    let ?st = "deleteEntry i st"
    have ents: "entries ?st = filter (\<lambda>e. e_id e \<noteq> i) (entries st)"
      by (simp add: deleteEntry_def)
    have a: "sorted_wrt (\<lambda>a b. e_timestamp b \<le> e_timestamp a) (entries ?st)"
      using Cons.prems(1) by (simp add: ents sorted_wrt_filter)
    have b: "sorted (tsClock ops)"
      using Cons.prems(2) Remove by simp
    have c: "\<forall>e \<in> set (entries ?st). \<forall>n \<in> set (tsClock ops). e_timestamp e \<le> n"
      using Cons.prems(3) Remove by (auto simp: ents)
    from Cons.IH [OF a b c] show ?thesis
      by (simp add: Remove)
  qed
qed

text \<open>
  C9, as amended. From an empty log, for every sequence of appends and removals:
  an append whose text trims to empty leaves the state unchanged; any other append
  prepends its entry, so \<open>listAll\<close> is most-recent-first; when the clock readings of the
  timestamps do not go backwards the list is sorted by timestamp, newest first; and when
  the successful appends read pairwise different clock values for their ids, the length
  of \<open>listAll\<close> is the number of successful appends minus the number of removals of
  present ids.
\<close>

theorem activity_log_sequences:
  assumes "entries st = []"
  shows "(trim newEntry = [] \<longrightarrow> addEntry now1 now2 newEntry st' = st')
       \<and> (trim newEntry \<noteq> [] \<longrightarrow>
            listAll (addEntry now1 now2 newEntry st') =
              \<lparr>e_id = Number_toString now1, e_text = trim newEntry, e_timestamp = now2\<rparr> # listAll st')
       \<and> (sorted (tsClock ops) \<longrightarrow>
            sorted_wrt (\<lambda>a b. e_timestamp b \<le> e_timestamp a) (listAll (run ops st)))
       \<and> (distinct (idClock ops) \<longrightarrow>
            int (length (listAll (run ops st))) = int (appends ops) - int (removals ops st))"
proof -
  have order: "sorted_wrt (\<lambda>a b. e_timestamp b \<le> e_timestamp a) (entries (run ops st))"
    if "sorted (tsClock ops)"
    using that by (intro run_newest_first) (simp_all add: assms)
  have count: "int (length (entries (run ops st))) = int (appends ops) - int (removals ops st)"
    if "distinct (idClock ops)"
  proof -
    have "length (entries (run ops st)) + removals ops st = length (entries st) + appends ops"
      using that by (intro run_length) (simp_all add: assms)
    then have "length (entries (run ops st)) + removals ops st = appends ops"
      by (simp add: assms)
    then show ?thesis
      by linarith
  qed
  show ?thesis
    using order count by (simp add: listAll_def addEntry_def assms)
qed

theorem activity_log_sequences_witness:
  "listAll (run [Append 1762128000000 1762128000001 (utf16 ''plan the week''),
                 Append 1762128000500 1762128000500 [0x20, 0xA0, 0x2003],
                 Append 1762128060000 1762128060000 (utf16 '' call the bank ''),
                 Remove ''1762128000000'',
                 Remove ''1762128000000''] initialEngine)
     = [\<lparr>e_id = ''1762128060000'', e_text = utf16 ''call the bank'', e_timestamp = 1762128060000\<rparr>]
   \<and> appends [Append 1762128000000 1762128000001 (utf16 ''plan the week''),
               Append 1762128000500 1762128000500 [0x20, 0xA0, 0x2003],
               Append 1762128060000 1762128060000 (utf16 '' call the bank ''),
               Remove ''1762128000000'',
               Remove ''1762128000000''] = 2
   \<and> removals [Append 1762128000000 1762128000001 (utf16 ''plan the week''),
                Append 1762128000500 1762128000500 [0x20, 0xA0, 0x2003],
                Append 1762128060000 1762128060000 (utf16 '' call the bank ''),
                Remove ''1762128000000'',
                Remove ''1762128000000''] initialEngine = 1"
proof -
  let ?ops = "[Append 1762128000000 1762128000001 (utf16 ''plan the week''),
               Append 1762128000500 1762128000500 [0x20, 0xA0, 0x2003],
               Append 1762128060000 1762128060000 (utf16 '' call the bank ''),
               Remove ''1762128000000'',
               Remove ''1762128000000'']"
  have blank: "trim [0x20, 0xA0, 0x2003] = []"
    and plan: "trim (utf16 ''plan the week'') = utf16 ''plan the week''"
    and bank: "trim (utf16 '' call the bank '') = utf16 ''call the bank''"
    by (simp_all add: trim_def isSpace_def utf16_def)
  have nonempty: "utf16 ''plan the week'' \<noteq> []" "utf16 ''call the bank'' \<noteq> []"
    by (simp_all add: utf16_def)
  have ids: "Number_toString 1762128000000 = ''1762128000000''"
    "Number_toString 1762128060000 = ''1762128060000''"
    by (simp_all add: Number_toString_def digits.simps digit_def)
  have empty: "entries initialEngine = []"
    by (simp add: initialEngine_def)
  have clock: "distinct (idClock ?ops)" "sorted (tsClock ?ops)"
    by (simp_all add: blank plan bank nonempty)
  have a: "appends ?ops = 2"
    by (simp add: blank plan bank nonempty)
  have r: "removals ?ops initialEngine = 1"
    by (simp add: addEntry_def deleteEntry_def blank plan bank nonempty ids empty)
  have l: "listAll (run ?ops initialEngine)
     = [\<lparr>e_id = ''1762128060000'', e_text = utf16 ''call the bank'', e_timestamp = 1762128060000\<rparr>]"
    by (simp add: listAll_def addEntry_def deleteEntry_def blank plan bank nonempty ids empty)
  from activity_log_sequences [OF empty, of "[0x20, 0xA0, 0x2003]" 1762128000500 1762128000500 initialEngine ?ops]
    clock
  have "int (length (listAll (run ?ops initialEngine))) = int (appends ?ops) - int (removals ?ops initialEngine)"
    by blast
  with a r l show ?thesis
    by simp
qed

text \<open>
  C9 as stated fails when two appends read the same millisecond: both entries get the
  same id and one removal deletes both. Two appends and one removal of a present id
  leave the log empty, not with one entry.
\<close>

theorem same_millisecond_counterexample:
  "listAll (run [Append 1762128000000 1762128000000 (utf16 ''plan the week''),
                 Append 1762128000000 1762128000000 (utf16 ''call the bank''),
                 Remove ''1762128000000''] initialEngine) = []
   \<and> appends [Append 1762128000000 1762128000000 (utf16 ''plan the week''),
               Append 1762128000000 1762128000000 (utf16 ''call the bank''),
               Remove ''1762128000000''] = 2
   \<and> removals [Append 1762128000000 1762128000000 (utf16 ''plan the week''),
                Append 1762128000000 1762128000000 (utf16 ''call the bank''),
                Remove ''1762128000000''] initialEngine = 1
   \<and> int (length (listAll (run [Append 1762128000000 1762128000000 (utf16 ''plan the week''),
                 Append 1762128000000 1762128000000 (utf16 ''call the bank''),
                 Remove ''1762128000000''] initialEngine)))
       \<noteq> int (appends [Append 1762128000000 1762128000000 (utf16 ''plan the week''),
               Append 1762128000000 1762128000000 (utf16 ''call the bank''),
               Remove ''1762128000000''])
         - int (removals [Append 1762128000000 1762128000000 (utf16 ''plan the week''),
                Append 1762128000000 1762128000000 (utf16 ''call the bank''),
                Remove ''1762128000000''] initialEngine)"
  by (simp add: listAll_def addEntry_def deleteEntry_def initialEngine_def trim_def isSpace_def
      utf16_def Number_toString_def digits.simps digit_def)



section \<open>Streak\<close>

lemma streakLoop_counts:
  assumes step: "\<And>t. toDateString z (setDateBack z t) = toDateString z t - 1"
  shows "\<exists>n. streakLoop z dates currentDate streak = Some (streak + n)
       \<and> (\<forall>i<n. toDateString z currentDate - int i \<in> set dates)
       \<and> toDateString z currentDate - int n \<notin> set dates"
proof (induction "length (filter (\<lambda>d. d \<le> toDateString z currentDate) dates)"
    arbitrary: currentDate streak rule: less_induct)
  case less
  let ?d = "toDateString z currentDate"
  show ?case
  proof (cases "?d \<in> set dates")
    case False
    then have "streakLoop z dates currentDate streak = Some (streak + 0)
       \<and> (\<forall>i<0. ?d - int i \<in> set dates) \<and> ?d - int 0 \<notin> set dates"
      by (simp add: streakLoop.simps [of z dates currentDate])
    then show ?thesis by blast
  next
    case True
    have "filter (\<lambda>d. d \<le> ?d - 1) dates
            = filter (\<lambda>d. d \<le> ?d - 1) (filter (\<lambda>d. d \<le> ?d) dates)"
      by (simp add: conj_commute cong: conj_cong)
    moreover have "length (filter (\<lambda>d. d \<le> ?d - 1) (filter (\<lambda>d. d \<le> ?d) dates))
                     < length (filter (\<lambda>d. d \<le> ?d) dates)"
      by (rule length_filter_less [of ?d]) (use True in simp_all)
    ultimately have "length (filter (\<lambda>d. d \<le> toDateString z (setDateBack z currentDate)) dates)
                       < length (filter (\<lambda>d. d \<le> ?d) dates)"
      by (simp add: step)
    from less [OF this, of "streak + 1"] obtain n where
      loop: "streakLoop z dates (setDateBack z currentDate) (streak + 1) = Some (streak + 1 + n)"
      and run: "\<forall>i<n. ?d - 1 - int i \<in> set dates"
      and gap: "?d - 1 - int n \<notin> set dates"
      by (auto simp: step)
    have "streakLoop z dates currentDate streak = Some (streak + Suc n)"
      using True loop by (simp add: streakLoop.simps [of z dates currentDate])
    moreover have "\<forall>i<Suc n. ?d - int i \<in> set dates"
    proof (intro allI impI)
      fix i assume "i < Suc n"
      show "?d - int i \<in> set dates"
      proof (cases i)
        case 0
        with True show ?thesis by simp
      next
        case (Suc j)
        with \<open>i < Suc n\<close> run have "?d - 1 - int j \<in> set dates" by simp
        with Suc show ?thesis by (simp add: algebra_simps)
      qed
    qed
    moreover have "?d - int (Suc n) \<notin> set dates"
      using gap by (simp add: algebra_simps)
    ultimately show ?thesis by blast
  qed
qed

lemma run_unique:
  fixes start :: int
  assumes "\<forall>i<m. start - int i \<in> D" and "start - int m \<notin> D"
    and "\<forall>i<n. start - int i \<in> D" and "start - int n \<notin> D"
  shows "m = n"
proof (rule ccontr)
  assume "m \<noteq> n"
  then consider "m < n" | "n < m" by linarith
  then show False
    using assms by cases auto
qed

lemma set_Array_from_Set: "set (Array_from_Set xs) = set xs"
  by (simp add: Array_from_Set_def)

text \<open>
  In a zone where the instant 24 hours before now lies in the day before today, and
  where \<open>setDate\<close> with the day before gives a date of the day before, \<open>calculateStreak\<close>
  returns the streak of the specification: 0 on an empty log and when neither today nor
  yesterday has an entry, and otherwise the length of the run of days with an entry that
  ends at today, or at yesterday when today has no entry.
\<close>

lemma streak_in_regular_zone:
  assumes day: "toDateString z (now - 86400000) = toDateString z now - 1"
    and step: "\<And>t. toDateString z (setDateBack z t) = toDateString z t - 1"
  shows "\<exists>n. calculateStreak z now es = Some n
       \<and> (let D = (\<lambda>e. toDateString z (e_timestamp e)) ` set es;
               today = getTodayString z now;
               yesterday = today - 1;
               start = (if today \<in> D then today else yesterday)
           in (es = [] \<longrightarrow> n = 0)
            \<and> (today \<notin> D \<and> yesterday \<notin> D \<longrightarrow> n = 0)
            \<and> (today \<in> D \<or> yesterday \<in> D \<longrightarrow>
                  (\<forall>i<n. start - int i \<in> D) \<and> start - int n \<notin> D)
            \<and> (D = {today - 4 .. today} \<longrightarrow> n = 5)
            \<and> (D = {today, today - 3} \<longrightarrow> n = 1))"
proof -
  define D where "D = (\<lambda>e. toDateString z (e_timestamp e)) ` set es"
  define today where "today = toDateString z now"
  define start where "start = (if today \<in> D then today else today - 1)"
  let ?dates = "Array_from_Set (map (\<lambda>e. toDateString z (e_timestamp e)) es)"
  let ?begin = "if today \<in> D then now else now - 86400000"
  have dates: "set ?dates = D"
    by (simp add: set_Array_from_Set D_def)
  have at_start: "toDateString z ?begin = start"
    by (simp add: start_def today_def day)
  have split: "calculateStreak z now es =
                 (if today \<notin> D \<and> today - 1 \<notin> D then Some 0 else streakLoop z ?dates ?begin 0)"
    by (cases "es = []")
       (simp_all add: calculateStreak_def getTodayString_def day set_Array_from_Set
          D_def today_def Let_def)
  from streakLoop_counts [of z ?dates ?begin 0, OF step] obtain k where
    loop: "streakLoop z ?dates ?begin 0 = Some k"
    and run: "\<forall>i<k. start - int i \<in> D" and gap: "start - int k \<notin> D"
    by (auto simp: at_start dates)
  define n where "n = (if today \<notin> D \<and> today - 1 \<notin> D then 0 else k)"
  have result: "calculateStreak z now es = Some n"
    by (simp add: split n_def loop)
  have empty: "n = 0" if "es = []"
    using that by (simp add: n_def D_def)
  have none: "n = 0" if "today \<notin> D \<and> today - 1 \<notin> D"
    using that by (simp add: n_def)
  have some: "(\<forall>i<n. start - int i \<in> D) \<and> start - int n \<notin> D" if "today \<in> D \<or> today - 1 \<in> D"
    using that run gap by (auto simp: n_def)
  have five: "n = 5" if D: "D = {today - 4 .. today}"
  proof -
    from D have "today \<in> D" by simp
    then have start: "start = today" by (simp add: start_def)
    from some \<open>today \<in> D\<close> have "\<forall>i<n. today - int i \<in> D" and "today - int n \<notin> D"
      by (simp_all add: start)
    moreover have "\<forall>i<5. today - int i \<in> D" "today - int 5 \<notin> D"
      using D by auto
    ultimately show ?thesis
      by (intro run_unique [of n today D 5]) simp_all
  qed
  have one: "n = 1" if D: "D = {today, today - 3}"
  proof -
    from D have "today \<in> D" by simp
    then have start: "start = today" by (simp add: start_def)
    from some \<open>today \<in> D\<close> have "\<forall>i<n. today - int i \<in> D" and "today - int n \<notin> D"
      by (simp_all add: start)
    moreover have "\<forall>i<1. today - int i \<in> D" "today - int 1 \<notin> D"
      using D by auto
    ultimately show ?thesis
      by (intro run_unique [of n today D 1]) simp_all
  qed
  have "(es = [] \<longrightarrow> n = 0)
      \<and> (today \<notin> D \<and> today - 1 \<notin> D \<longrightarrow> n = 0)
      \<and> (today \<in> D \<or> today - 1 \<in> D \<longrightarrow> (\<forall>i<n. start - int i \<in> D) \<and> start - int n \<notin> D)
      \<and> (D = {today - 4 .. today} \<longrightarrow> n = 5)
      \<and> (D = {today, today - 3} \<longrightarrow> n = 1)"
    using empty none some five one by blast
  with result show ?thesis
    unfolding Let_def getTodayString_def D_def [symmetric] today_def [symmetric] start_def [symmetric]
    by blast
qed

lemma fixedZone_regular:
  "toDateString (fixedZone tz) (now - 86400000) = toDateString (fixedZone tz) now - 1"
  "toDateString (fixedZone tz) (setDateBack (fixedZone tz) t) = toDateString (fixedZone tz) t - 1"
  by (simp_all add: toDateString_def setDateBack_def LocalTime_def UTC_def fixedZone_def)

text \<open>
  C6. In New York on Sunday 2 November 2025 at 23:30 (04:30 UTC of 3 November), with one
  entry, logged on Saturday 1 November at noon: yesterday has an entry, so the streak of
  the claim is 1. The Sunday has 25 hours, the instant 24 hours before now is Sunday
  00:30, and \<open>calculateStreak\<close> takes that day, which is today, for yesterday: it finds
  an entry on neither and returns 0.
\<close>

theorem streak_lost_on_long_day:
  "getTodayString newYork 1762144200000 = 20394
   \<and> toDateString newYork (e_timestamp (burstEntry 1762012800000 1762012800000)) = 20394 - 1
   \<and> toDateString newYork (1762144200000 - 86400000) = 20394
   \<and> toDateString newYork (setDateBack newYork 1762144200000) = 20394 - 1
   \<and> calculateStreak newYork 1762144200000 [burstEntry 1762012800000 1762012800000] = Some 0"
  by (simp add: calculateStreak_def getTodayString_def toDateString_def setDateBack_def
      LocalTime_def UTC_def newYork_def burstEntry_def Array_from_Set_def)

lemma streak_fixed_zone_example:
  "calculateStreak (fixedZone 0) 1762131600000
     (map (\<lambda>t. burstEntry t t) [1762131600000, 1762045200000, 1761958800000, 1761872400000, 1761786000000]) = Some 5
   \<and> calculateStreak (fixedZone 0) 1762131600000 (map (\<lambda>t. burstEntry t t) [1762131600000, 1761872400000]) = Some 1
   \<and> calculateStreak (fixedZone 0) 1762131600000 (map (\<lambda>t. burstEntry t t) [1762045200000, 1761958800000]) = Some 2
   \<and> calculateStreak (fixedZone 0) 1762131600000 (map (\<lambda>t. burstEntry t t) [1761958800000]) = Some 0"
  by (simp add: calculateStreak_def getTodayString_def toDateString_def setDateBack_def
      LocalTime_def UTC_def fixedZone_def burstEntry_def Array_from_Set_def streakLoop.simps)


section \<open>Average per active day\<close>

lemma keys_bump:
  "map fst (bump d m) = (if d \<in> set (map fst m) then map fst m else map fst m @ [d])"
  by (induction d m rule: bump.induct) auto

lemma keyset_bump: "fst ` set (bump d m) = insert d (fst ` set m)"
proof -
  have "set (map fst (bump d m)) = insert d (set (map fst m))"
    by (simp only: keys_bump) auto
  then show ?thesis by simp
qed

lemma keys_foldl_bump:
  "set (map fst (foldl (\<lambda>m e. bump (f e) m) m es)) = set (map fst m) \<union> f ` set es"
  by (induction es arbitrary: m) (auto simp: keyset_bump)

lemma distinct_foldl_bump:
  "distinct (map fst m) \<Longrightarrow> distinct (map fst (foldl (\<lambda>m e. bump (f e) m) m es))"
  by (induction es arbitrary: m) (simp_all add: keys_bump)

lemma length_keys_activityMap:
  "length (map fst (activityMap z es)) = card ((\<lambda>e. toDateString z (e_timestamp e)) ` set es)"
proof -
  have "distinct (map fst (activityMap z es))"
    unfolding activityMap_def by (rule distinct_foldl_bump) simp
  then have "length (map fst (activityMap z es)) = card (set (map fst (activityMap z es)))"
    by (simp only: distinct_card)
  also have "set (map fst (activityMap z es)) = (\<lambda>e. toDateString z (e_timestamp e)) ` set es"
    unfolding activityMap_def by (simp only: keys_foldl_bump) simp
  finally show ?thesis .
qed

lemma expo_le: "0 < b \<Longrightarrow> b \<le> a \<Longrightarrow> b * 2 ^ expo a b \<le> a"
proof (induction a b rule: expo.induct)
  case (1 a b)
  show ?case
  proof (cases "a < 2 * b")
    case True
    with 1 show ?thesis by (simp add: expo.simps [of a b])
  next
    case False
    with "1.prems" have "2 * b * 2 ^ expo a (2 * b) \<le> a"
      by (intro "1.IH") simp_all
    with False "1.prems" show ?thesis
      by (simp add: expo.simps [of a b] mult_ac)
  qed
qed

lemma roundHalfEven_near:
  assumes "0 < b"
  shows "\<bar>of_nat (roundHalfEven n b) - (of_nat n / of_nat b :: rat)\<bar> \<le> 1 / 2"
proof -
  define q where "q = n div b"
  define r where "r = n mod b"
  have n: "n = q * b + r" and r: "r < b"
    using assms by (simp_all add: q_def r_def)
  have b: "(0::rat) < of_nat b"
    using assms by simp
  have quot: "(of_nat n / of_nat b :: rat) = of_nat q + of_nat r / of_nat b"
    using b by (simp add: n field_simps)
  have below: "\<bar>of_nat q - (of_nat n / of_nat b :: rat)\<bar> \<le> 1 / 2" if "2 * r \<le> b"
  proof -
    from that have "(2::rat) * of_nat r \<le> of_nat b"
      by (metis of_nat_le_iff of_nat_mult of_nat_numeral)
    with b show ?thesis
      by (simp add: quot field_simps)
  qed
  have above: "\<bar>of_nat (q + 1) - (of_nat n / of_nat b :: rat)\<bar> \<le> 1 / 2" if "b \<le> 2 * r"
  proof -
    from that have "(of_nat b :: rat) \<le> 2 * of_nat r"
      by (metis of_nat_le_iff of_nat_mult of_nat_numeral)
    moreover from r have "(of_nat r :: rat) < of_nat b"
      by simp
    ultimately show ?thesis
      using b by (simp add: quot field_simps abs_if)
  qed
  consider "2 * r < b" | "b < 2 * r" | "2 * r = b" by linarith
  then show ?thesis
  proof cases
    case 1
    then have "roundHalfEven n b = q"
      by (simp add: roundHalfEven_def Let_def q_def r_def)
    with below 1 show ?thesis by simp
  next
    case 2
    then have "roundHalfEven n b = q + 1"
      by (simp add: roundHalfEven_def Let_def q_def r_def)
    with above 2 show ?thesis by simp
  next
    case 3
    then have "roundHalfEven n b = q \<or> roundHalfEven n b = q + 1"
      by (simp add: roundHalfEven_def Let_def q_def r_def)
    with below above 3 show ?thesis by auto
  qed
qed

lemma divideDouble_near:
  assumes "0 < b" and "b \<le> a"
  shows "\<bar>divideDouble a b - of_nat a / of_nat b\<bar> \<le> (of_nat a / of_nat b) / 2 ^ 53"
proof -
  define k where "k = 52 - expo a b"
  define m where "m = roundHalfEven (a * 2 ^ k) b"
  have b: "(0::rat) < of_nat b"
    using assms by simp
  have x: "divideDouble a b = of_nat m / 2 ^ k"
    by (simp add: divideDouble_def Let_def k_def m_def)
  have "\<bar>of_nat m - (of_nat (a * 2 ^ k) / of_nat b :: rat)\<bar> \<le> 1 / 2"
    unfolding m_def using assms(1) by (rule roundHalfEven_near)
  then have "\<bar>of_nat m - (of_nat a / of_nat b :: rat) * 2 ^ k\<bar> \<le> 1 / 2"
    by (simp add: field_simps)
  then have "\<bar>of_nat m - (of_nat a / of_nat b :: rat) * 2 ^ k\<bar> / 2 ^ k \<le> (1 / 2) / 2 ^ k"
    by (rule divide_right_mono) simp
  then have "\<bar>(of_nat m - (of_nat a / of_nat b :: rat) * 2 ^ k) / 2 ^ k\<bar> \<le> (1 / 2) / 2 ^ k"
    by (simp add: abs_divide del: times_divide_eq_left divide_divide_eq_left)
  then have near: "\<bar>divideDouble a b - (of_nat a / of_nat b :: rat)\<bar> \<le> (1 / 2) / 2 ^ k"
    by (simp add: x diff_divide_distrib)
  have scaled: "b * 2 ^ 52 \<le> a * 2 ^ k"
  proof (cases "expo a b \<le> 52")
    case True
    then have "(2::nat) ^ 52 = 2 ^ expo a b * 2 ^ k"
      by (simp add: k_def flip: power_add)
    then have "b * 2 ^ 52 = (b * 2 ^ expo a b) * 2 ^ k"
      by simp
    also have "\<dots> \<le> a * 2 ^ k"
      using expo_le [OF assms] by (rule mult_le_mono1)
    finally show ?thesis .
  next
    case False
    then have "(2::nat) ^ 52 \<le> 2 ^ expo a b"
      by (intro power_increasing) simp_all
    then have "b * 2 ^ 52 \<le> b * 2 ^ expo a b"
      by (rule mult_le_mono2)
    also have "\<dots> \<le> a"
      by (rule expo_le [OF assms])
    finally show ?thesis
      using False by (simp add: k_def)
  qed
  then have "(of_nat (b * 2 ^ 52) :: rat) \<le> of_nat (a * 2 ^ k)"
    by (simp only: of_nat_le_iff)
  then have "(of_nat b :: rat) * 2 ^ 52 \<le> of_nat a * 2 ^ k"
    by simp
  then have "(1 / 2) / 2 ^ k \<le> ((of_nat a / of_nat b) / 2 ^ 53 :: rat)"
    using b by (simp add: field_simps)
  with near show ?thesis
    by linarith
qed

lemma divideDouble_nonneg: "0 \<le> divideDouble a b"
  by (simp add: divideDouble_def Let_def)

lemma toFixed1_near:
  assumes "0 \<le> x"
  shows "\<exists>n. toFixed1 x = digits (n div 10) @ ''.'' @ [digit (n mod 10)]
           \<and> \<bar>of_nat n / 10 - x\<bar> \<le> 1 / 20"
proof -
  define n where "n = nat \<lfloor>x * 10 + 1 / 2\<rfloor>"
  from assms have "0 \<le> \<lfloor>x * 10 + 1 / 2\<rfloor>"
    by simp
  then have "(of_nat n :: rat) = of_int \<lfloor>x * 10 + 1 / 2\<rfloor>"
    by (simp add: n_def)
  then have "of_nat n \<le> x * 10 + 1 / 2" and "x * 10 + 1 / 2 < of_nat n + 1"
    by linarith+
  then have "\<bar>of_nat n / 10 - x\<bar> \<le> 1 / 20"
    by linarith
  moreover have "toFixed1 x = digits (n div 10) @ ''.'' @ [digit (n mod 10)]"
    by (simp add: toFixed1_def Let_def n_def)
  ultimately show ?thesis by blast
qed

text \<open>
  C8, as amended. \<open>avgActionsPerDay\<close> is total: on an empty log it is the number 0, and
  the division is made only when there is an entry, with a divisor that is not zero (and
  not above the dividend). On a non-empty log the result is not the quotient but a
  string: what \<open>toFixed(1)\<close> prints for the floating-point quotient of the number of
  entries by the number of distinct active days. That string is the decimal numeral
  with one digit after the point of \<open>n / 10\<close>, for a whole number \<open>n\<close> with \<open>n / 10\<close> within
  \<open>1/20\<close> of the double, and the double is within the relative error \<open>2^-53\<close> of the exact
  quotient: the quotient rounded to one decimal place. The map has no key exactly when the
  log is empty.
\<close>

theorem average_guarded:
  "avgActionsPerDay z [] = Number 0
   \<and> (es \<noteq> [] \<longrightarrow>
        (let total = length es;
             days = card ((\<lambda>e. toDateString z (e_timestamp e)) ` set es);
             x = divideDouble total days
         in 0 < days \<and> days \<le> total
          \<and> avgActionsPerDay z es = Text (toFixed1 x)
          \<and> \<bar>x - of_nat total / of_nat days\<bar> \<le> (of_nat total / of_nat days) / 2 ^ 53
          \<and> (\<exists>n. toFixed1 x = digits (n div 10) @ ''.'' @ [digit (n mod 10)]
                \<and> \<bar>of_nat n / 10 - x\<bar> \<le> 1 / 20)))
   \<and> (length (map fst (activityMap z es)) = 0 \<longleftrightarrow> es = [])"
proof -
  let ?days = "card ((\<lambda>e. toDateString z (e_timestamp e)) ` set es)"
  have zero: "?days = 0 \<longleftrightarrow> es = []"
    by (simp add: card_eq_0_iff)
  have keys: "length (map fst (activityMap z es)) = ?days"
    by (rule length_keys_activityMap)
  have le: "?days \<le> length es"
    by (metis card_image_le card_length le_trans List.finite_set)
  have first: "avgActionsPerDay z [] = Number 0"
    by (simp add: avgActionsPerDay_def activityMap_def)
  have shown: "avgActionsPerDay z es = Text (toFixed1 (divideDouble (length es) ?days))"
    if "es \<noteq> []"
    using that zero unfolding avgActionsPerDay_def Let_def keys by simp
  have pos: "0 < ?days" if "es \<noteq> []"
    using that by (simp add: card_gt_0_iff)
  show ?thesis
    unfolding Let_def
    using first shown pos le zero keys
      divideDouble_near [of ?days "length es"]
      toFixed1_near [OF divideDouble_nonneg, of "length es" ?days]
    by simp
qed

lemma floor_numeral_quotient: "\<lfloor>(numeral a / numeral b :: rat)\<rfloor> = numeral a div numeral b"
  by (metis floor_divide_of_int_eq of_int_numeral)

lemma toFixed1_examples:
  "toFixed1 (divideDouble 4 3) = ''1.3''"
  "toFixed1 (divideDouble 23 20) = ''1.1''"
  "toFixed1 (divideDouble 5 4) = ''1.3''"
  "toFixed1 (divideDouble 7 1) = ''7.0''"
  by (simp_all add: divideDouble_def expo.simps roundHalfEven_def toFixed1_def Let_def
      digits.simps digit_def floor_numeral_quotient)

theorem average_guarded_witness:
  "avgActionsPerDay (fixedZone 0)
     (map (\<lambda>t. burstEntry t t) [1762131600000, 1762045200000, 1762045200001, 1761872400000])
     = Text ''1.3''"
proof -
  let ?es = "map (\<lambda>t. burstEntry t t) [1762131600000, 1762045200000, 1762045200001, 1761872400000]"
  have "(\<lambda>e. toDateString (fixedZone 0) (e_timestamp e)) ` set ?es = {20395, 20394, 20392}"
    by (auto simp: toDateString_def LocalTime_def fixedZone_def burstEntry_def)
  then have days: "card ((\<lambda>e. toDateString (fixedZone 0) (e_timestamp e)) ` set ?es) = 3"
    by simp
  have total: "length ?es = 4"
    by simp
  have "?es \<noteq> []"
    by simp
  with average_guarded [of "fixedZone 0" ?es, unfolded Let_def total days]
  have "avgActionsPerDay (fixedZone 0) ?es = Text (toFixed1 (divideDouble 4 3))"
    by blast
  then show ?thesis
    by (simp only: toFixed1_examples)
qed

text \<open>
  C8 as stated fails on a log of four entries on three days: the result is the text
  \<open>1.3\<close>, not the quotient 4/3.
\<close>

theorem average_is_text_counterexample:
  "avgActionsPerDay (fixedZone 0)
     (map (\<lambda>t. burstEntry t t) [1762131600000, 1762045200000, 1762045200001, 1761872400000])
     = Text ''1.3''
   \<and> avgActionsPerDay (fixedZone 0)
     (map (\<lambda>t. burstEntry t t) [1762131600000, 1762045200000, 1762045200001, 1761872400000])
     \<noteq> Number (4 / 3)"
proof -
  let ?es = "map (\<lambda>t. burstEntry t t) [1762131600000, 1762045200000, 1762045200001, 1761872400000]"
  have days: "length (map fst (activityMap (fixedZone 0) ?es)) = 3"
    by (simp add: activityMap_def burstEntry_def toDateString_def LocalTime_def fixedZone_def)
  have total: "length ?es = 4"
    by simp
  have "avgActionsPerDay (fixedZone 0) ?es = Text (toFixed1 (divideDouble 4 3))"
    unfolding avgActionsPerDay_def Let_def days total by simp
  then show ?thesis
    by (simp only: toFixed1_examples) simp
qed


section \<open>Snapshots\<close>

lemma ifTruthy_cells:
  "ifTruthy t1 v1 (\<lambda>x st. st\<lparr>entries := x\<rparr>) st = st\<lparr>entries := cellAfter t1 v1 (entries st)\<rparr>"
  "ifTruthy t2 v2 (\<lambda>x st. st\<lparr>habits := x\<rparr>) st = st\<lparr>habits := cellAfter t2 v2 (habits st)\<rparr>"
  "ifTruthy t3 v3 (\<lambda>x st. st\<lparr>vision := x\<rparr>) st = st\<lparr>vision := cellAfter t3 v3 (vision st)\<rparr>"
  "ifTruthy t4 v4 (\<lambda>x st. st\<lparr>miniGoals := x\<rparr>) st = st\<lparr>miniGoals := cellAfter t4 v4 (miniGoals st)\<rparr>"
  "ifTruthy t5 v5 (\<lambda>x st. st\<lparr>ifThenPlans := x\<rparr>) st = st\<lparr>ifThenPlans := cellAfter t5 v5 (ifThenPlans st)\<rparr>"
  "ifTruthy t6 v6 (\<lambda>x st. st\<lparr>woop := x\<rparr>) st = st\<lparr>woop := cellAfter t6 v6 (woop st)\<rparr>"
  "ifTruthy t7 v7 (\<lambda>x st. st\<lparr>points := x\<rparr>) st = st\<lparr>points := cellAfter t7 v7 (points st)\<rparr>"
  "ifTruthy t8 v8 (\<lambda>x st. st\<lparr>activeTheme := x\<rparr>) st = st\<lparr>activeTheme := cellAfter t8 v8 (activeTheme st)\<rparr>"
  "ifTruthy t9 v9 (\<lambda>x st. st\<lparr>habitHistory := x\<rparr>) st = st\<lparr>habitHistory := cellAfter t9 v9 (habitHistory st)\<rparr>"
  "ifTruthy t10 v10 (\<lambda>x st. st\<lparr>futureCostNotes := x\<rparr>) st = st\<lparr>futureCostNotes := cellAfter t10 v10 (futureCostNotes st)\<rparr>"
  "ifTruthy t11 v11 (\<lambda>x st. st\<lparr>analytics := x\<rparr>) st = st\<lparr>analytics := cellAfter t11 v11 (analytics st)\<rparr>"
  by (simp_all add: ifTruthy_def cellAfter_def split: option.splits)

lemma applyData_cells:
  "applyData data st =
     st\<lparr>entries := cellAfter truthyArray (d_entries data) (entries st),
        habits := cellAfter truthyArray (d_habits data) (habits st),
        vision := cellAfter truthyString (d_vision data) (vision st),
        miniGoals := cellAfter truthyArray (d_miniGoals data) (miniGoals st),
        ifThenPlans := cellAfter truthyArray (d_ifThenPlans data) (ifThenPlans st),
        woop := cellAfter truthyObject (d_woop data) (woop st),
        points := cellAfter truthyNumber (d_points data) (points st),
        activeTheme := cellAfter truthyString (d_activeTheme data) (activeTheme st),
        habitHistory := cellAfter truthyObject (d_habitHistory data) (habitHistory st),
        futureCostNotes := cellAfter truthyObject (d_futureCostNotes data) (futureCostNotes st),
        analytics := cellAfter truthyObject (d_analytics data) (analytics st)\<rparr>"
  unfolding applyData_def Let_def ifTruthy_cells by simp

lemma cellAfter_simps:
  "cellAfter t None old = old"
  "cellAfter truthyArray (Some xs) olds = xs"
  "cellAfter truthyObject (Some y) oldy = y"
  "cellAfter truthyString (Some s) olds' = (if s = [] then olds' else s)"
  "cellAfter truthyNumber (Some n) oldn = (if n = 0 then oldn else n)"
  by (simp_all add: cellAfter_def truthyArray_def truthyObject_def truthyString_def truthyNumber_def)

text \<open>
  What an import of an export does to each cell: the five array and object cells of the
  export are restored, the three string and number cells are restored when they are
  not falsy, and habit history, future cost notes and analytics, which \<open>exportData\<close>
  does not write, stay as they are in the importing state.
\<close>

lemma export_then_import:
  "applyData (exportData isoTime st) st0 =
     st0\<lparr>entries := entries st,
         habits := habits st,
         vision := (if vision st = [] then vision st0 else vision st),
         miniGoals := miniGoals st,
         ifThenPlans := ifThenPlans st,
         woop := woop st,
         points := (if points st = 0 then points st0 else points st),
         activeTheme := (if activeTheme st = [] then activeTheme st0 else activeTheme st)\<rparr>"
  by (simp add: applyData_cells cellAfter_simps exportData_def noKeys_def)

text \<open>
  C1. Export, clear, import does not restore every populated cell. After one habit is
  toggled on, analytics counts one completed habit and the habit history has the label
  under today; the exported object has none of the keys \<open>analytics\<close>, \<open>habitHistory\<close> and
  \<open>futureCostNotes\<close>, and importing it into the initial state leaves analytics at zero
  and the history empty, although \<open>importData\<close> reads all three keys.
\<close>

theorem roundtrip_drops_analytics_and_history:
  "analytics (toggleHabit 20395 ''2'' initialEngine) = noAnalytics\<lparr>habitsCompleted := 1\<rparr>
   \<and> habitHistory (toggleHabit 20395 ''2'' initialEngine) 20395 = Some [''Read 10 pages'']
   \<and> d_analytics (exportData ''2025-11-03T01:00:00.000Z'' (toggleHabit 20395 ''2'' initialEngine)) = None
   \<and> d_habitHistory (exportData ''2025-11-03T01:00:00.000Z'' (toggleHabit 20395 ''2'' initialEngine)) = None
   \<and> d_futureCostNotes (exportData ''2025-11-03T01:00:00.000Z'' (toggleHabit 20395 ''2'' initialEngine)) = None
   \<and> analytics (applyData (exportData ''2025-11-03T01:00:00.000Z'' (toggleHabit 20395 ''2'' initialEngine))
        initialEngine) = noAnalytics
   \<and> habitHistory (applyData (exportData ''2025-11-03T01:00:00.000Z'' (toggleHabit 20395 ''2'' initialEngine))
        initialEngine) 20395 = None
   \<and> habits (applyData (exportData ''2025-11-03T01:00:00.000Z'' (toggleHabit 20395 ''2'' initialEngine))
        initialEngine) = habits (toggleHabit 20395 ''2'' initialEngine)"
  by (simp add: applyData_cells cellAfter_simps exportData_def noKeys_def)
     (simp add: toggleHabit_def initialEngine_def seededHabits_def flipHabit_def noAnalytics_def
        logHabit_def dayHistory_def)

text \<open>
  C2. When the document cannot be parsed, \<open>importData\<close> reports the invalid backup and the
  state after is the state before. The same holds whenever it reports the invalid backup.
\<close>

theorem import_unparseable_keeps_state:
  "(JSON_parse document = None \<longrightarrow>
      importData JSON_parse document st = (''Error: Invalid backup file.'', st))
   \<and> (fst (importData JSON_parse document st) = ''Error: Invalid backup file.'' \<longrightarrow>
      snd (importData JSON_parse document st) = st)"
  by (simp add: importData_def split: option.splits parsed.splits)

theorem import_unparseable_keeps_state_witness:
  "importData (\<lambda>d. if d = ''{\"points\": 7}'' then Some (JObject (noKeys\<lparr>d_points := Some 7\<rparr>)) else None)
     ''{\"points\": 7'' (handleTimerComplete 1762131600000 1762131600000 initialEngine)
   = (''Error: Invalid backup file.'', handleTimerComplete 1762131600000 1762131600000 initialEngine)"
  using import_unparseable_keeps_state
    [of "\<lambda>d. if d = ''{\"points\": 7}'' then Some (JObject (noKeys\<lparr>d_points := Some 7\<rparr>)) else None"
        "''{\"points\": 7''" "handleTimerComplete 1762131600000 1762131600000 initialEngine"]
  by simp

text \<open>
  C3. Importing a document whose only key is \<open>points\<close>, with a value that is not zero,
  sets the points to that value and leaves every other cell as it was.
\<close>

theorem import_only_points:
  assumes "p \<noteq> 0"
    and "JSON_parse document = Some (JObject (noKeys\<lparr>d_points := Some p\<rparr>))"
  shows "snd (importData JSON_parse document st) = st\<lparr>points := p\<rparr>
       \<and> points (snd (importData JSON_parse document st)) = p
       \<and> entries (snd (importData JSON_parse document st)) = entries st
       \<and> habits (snd (importData JSON_parse document st)) = habits st
       \<and> vision (snd (importData JSON_parse document st)) = vision st
       \<and> miniGoals (snd (importData JSON_parse document st)) = miniGoals st
       \<and> ifThenPlans (snd (importData JSON_parse document st)) = ifThenPlans st
       \<and> woop (snd (importData JSON_parse document st)) = woop st
       \<and> activeTheme (snd (importData JSON_parse document st)) = activeTheme st
       \<and> habitHistory (snd (importData JSON_parse document st)) = habitHistory st
       \<and> futureCostNotes (snd (importData JSON_parse document st)) = futureCostNotes st
       \<and> analytics (snd (importData JSON_parse document st)) = analytics st
       \<and> lastReset (snd (importData JSON_parse document st)) = lastReset st"
proof -
  have "snd (importData JSON_parse document st) = st\<lparr>points := p\<rparr>"
    using assms by (simp add: importData_def applyData_cells cellAfter_simps noKeys_def)
  then show ?thesis
    by simp
qed

theorem import_only_points_witness:
  "snd (importData (\<lambda>d. if d = ''{\"points\": 7}'' then Some (JObject (noKeys\<lparr>d_points := Some 7\<rparr>)) else None)
     ''{\"points\": 7}'' (handleTimerComplete 1762131600000 1762131600000 initialEngine))
   = (handleTimerComplete 1762131600000 1762131600000 initialEngine)\<lparr>points := 7\<rparr>"
  using import_only_points
    [of 7 "\<lambda>d. if d = ''{\"points\": 7}'' then Some (JObject (noKeys\<lparr>d_points := Some 7\<rparr>)) else None"
        "''{\"points\": 7}''" "handleTimerComplete 1762131600000 1762131600000 initialEngine"]
  by simp

text \<open>
  C10. \<open>importData\<close> skips a key whose value is falsy, as it skips a missing key: a
  document with \<open>points\<close> 0 leaves the points, and one with the empty string for \<open>vision\<close>
  leaves the vision, whatever else the document holds. An empty array is truthy: a
  document with \<open>entries\<close> \<open>[]\<close> empties the log. So the points of a state with zero points
  do not survive export and import: the importing state keeps its own points.
\<close>

theorem import_skips_falsy:
  "points (applyData (data\<lparr>d_points := Some 0\<rparr>) st) = points st
   \<and> vision (applyData (data\<lparr>d_vision := Some []\<rparr>) st) = vision st
   \<and> entries (applyData (data\<lparr>d_entries := Some []\<rparr>) st) = []
   \<and> (points st = 0 \<longrightarrow> points (applyData (exportData isoTime st) st0) = points st0)
   \<and> (points st = 0 \<and> points st0 \<noteq> 0 \<longrightarrow>
        points (applyData (exportData isoTime st) st0) \<noteq> points st)"
  by (simp add: applyData_cells cellAfter_simps exportData_def noKeys_def)

theorem import_skips_falsy_witness:
  "points initialEngine = 0
   \<and> points (handleTimerComplete 1762131600000 1762131600000 initialEngine) = 1
   \<and> points (applyData (exportData ''2025-11-03T01:00:00.000Z'' initialEngine)
        (handleTimerComplete 1762131600000 1762131600000 initialEngine)) = 1"
  using import_skips_falsy
    [of noKeys initialEngine "''2025-11-03T01:00:00.000Z''"
        "handleTimerComplete 1762131600000 1762131600000 initialEngine"]
  by (simp add: initialEngine_def handleTimerComplete_def)

end
